theory Spec2Isabelle
  imports Main
begin

section \<open>JavaScript values, errors and file contents\<close>

text \<open>
  At run time every value the installer reads back from disk is what \<^verbatim>\<open>JSON.parse\<close>
  returned: a JSON value with no further checks. Numbers are never inspected by the
  installer; they are carried as integers. An object is its list of properties.
\<close>

datatype json =
    JNull
  | JBool bool
  | JNum int
  | JStr string
  | JArr "json list"
  | JObj "(string \<times> json) list"

text \<open>
  One constructor for every \<^verbatim>\<open>throw new Error(...)\<close> of \<^verbatim>\<open>installer.ts\<close>, and one for
  every kind of exception that the runtime raises below it: a failed child process
  (\<^verbatim>\<open>execSync\<close>), a failed file-system call, a \<^verbatim>\<open>TypeError\<close> (property of
  \<^verbatim>\<open>null\<close>/\<^verbatim>\<open>undefined\<close>, a method missing on a non-array, a non-string path) and the
  \<^verbatim>\<open>SyntaxError\<close> of \<^verbatim>\<open>JSON.parse\<close>.
\<close>

datatype error =
    AlreadyInstalled string
  | NotInstalledUpdate string
  | NotInstalled string
  | NoInstallationMethod
  | DockerImageNotSpecified
  | BinaryNotImplemented
  | ExecError string
  | FsError string
  | TypeError
  | SyntaxError

definition quote :: string where
  "quote = [CHR 0x27]"

fun message :: "error \<Rightarrow> string" where
  "message (AlreadyInstalled x) =
     ''Server '' @ x @ '' is already installed. Use '' @ quote @ ''update'' @ quote @ '' instead.''"
| "message (NotInstalledUpdate x) =
     ''Server '' @ x @ '' is not installed. Use '' @ quote @ ''install'' @ quote @ '' first.''"
| "message (NotInstalled x) = ''Server '' @ x @ '' is not installed.''"
| "message NoInstallationMethod = ''No installation method available for this server''"
| "message DockerImageNotSpecified = ''Docker image not specified''"
| "message BinaryNotImplemented = ''Binary installation from GitHub not yet implemented''"
| "message (ExecError s) = s"
| "message (FsError s) = s"
| "message TypeError = ''TypeError''"
| "message SyntaxError = ''SyntaxError''"

text \<open>
  Property access \<^verbatim>\<open>v.k\<close>. \<open>None\<close> is \<^verbatim>\<open>undefined\<close>. Reading a property of
  \<^verbatim>\<open>null\<close> or \<^verbatim>\<open>undefined\<close> throws; on a number, boolean, string or array the keys the
  installer reads (\<^verbatim>\<open>id\<close>, \<^verbatim>\<open>path\<close>, \<^verbatim>\<open>runtime\<close>, \<^verbatim>\<open>type\<close>, \<^verbatim>\<open>entry\<close>,
  \<^verbatim>\<open>installation\<close>, \<^verbatim>\<open>dockerImage\<close>) are not defined, so the result is \<^verbatim>\<open>undefined\<close>.
\<close>

fun get_prop :: "string \<Rightarrow> json option \<Rightarrow> error + json option" where
  "get_prop k None = Inl TypeError"
| "get_prop k (Some JNull) = Inl TypeError"
| "get_prop k (Some (JObj kvs)) = Inr (map_of kvs k)"
| "get_prop k (Some v) = Inr None"

text \<open>
  The text of a file is represented by what \<^verbatim>\<open>JSON.parse\<close> makes of it: \<open>Encoded v\<close>
  is a text that parses to the value \<open>v\<close> (in particular the text
  \<^verbatim>\<open>JSON.stringify(v, null, 2)\<close>), \<open>Raw s\<close> is a text \<open>s\<close> on which \<^verbatim>\<open>JSON.parse\<close>
  throws.
\<close>

datatype content = Encoded json | Raw string

definition JSON_stringify :: "json \<Rightarrow> content" where
  "JSON_stringify v = Encoded v"

fun JSON_parse :: "content \<Rightarrow> error + json" where
  "JSON_parse (Encoded v) = Inr v"
| "JSON_parse (Raw s) = Inl SyntaxError"

section \<open>The file system below the installation directory\<close>

datatype node = File content | Dir "string \<Rightarrow> node option"

type_synonym dir = "string \<Rightarrow> node option"

text \<open>
  A path is the list of its segments below \<^verbatim>\<open>installDir\<close>; \<^verbatim>\<open>join(installDir, x)\<close>
  for a plain segment \<open>x\<close> is the path \<open>[x]\<close>.
\<close>

fun lookup :: "dir \<Rightarrow> string list \<Rightarrow> node option" where
  "lookup t [] = Some (Dir t)"
| "lookup t (n # ns) =
     (case t n of
        None \<Rightarrow> None
      | Some (File c) \<Rightarrow> (if ns = [] then Some (File c) else None)
      | Some (Dir d) \<Rightarrow> lookup d ns)"

definition existsSync :: "dir \<Rightarrow> string list \<Rightarrow> bool" where
  "existsSync t p = (lookup t p \<noteq> None)"

definition readFileSync :: "dir \<Rightarrow> string list \<Rightarrow> error + content" where
  "readFileSync t p =
     (case lookup t p of
        None \<Rightarrow> Inl (FsError ''ENOENT'')
      | Some (Dir d) \<Rightarrow> Inl (FsError ''EISDIR'')
      | Some (File c) \<Rightarrow> Inr c)"

fun writeFileSync :: "dir \<Rightarrow> string list \<Rightarrow> content \<Rightarrow> error + dir" where
  "writeFileSync t [] c = Inl (FsError ''EISDIR'')"
| "writeFileSync t [n] c =
     (case t n of
        Some (Dir d) \<Rightarrow> Inl (FsError ''EISDIR'')
      | _ \<Rightarrow> Inr (t(n \<mapsto> File c)))"
| "writeFileSync t (n # ns) c =
     (case t n of
        None \<Rightarrow> Inl (FsError ''ENOENT'')
      | Some (File x) \<Rightarrow> Inl (FsError ''ENOTDIR'')
      | Some (Dir d) \<Rightarrow>
          (case writeFileSync d ns c of
             Inl e \<Rightarrow> Inl e
           | Inr d' \<Rightarrow> Inr (t(n \<mapsto> Dir d'))))"

text \<open>\<^verbatim>\<open>mkdirSync(p, { recursive: true })\<close>: creates what is missing, keeps what exists.\<close>

fun mkdirSync :: "dir \<Rightarrow> string list \<Rightarrow> error + dir" where
  "mkdirSync t [] = Inr t"
| "mkdirSync t (n # ns) =
     (case t n of
        Some (File x) \<Rightarrow> Inl (FsError ''EEXIST'')
      | Some (Dir d) \<Rightarrow>
          (case mkdirSync d ns of Inl e \<Rightarrow> Inl e | Inr d' \<Rightarrow> Inr (t(n \<mapsto> Dir d')))
      | None \<Rightarrow>
          (case mkdirSync Map.empty ns of Inl e \<Rightarrow> Inl e | Inr d' \<Rightarrow> Inr (t(n \<mapsto> Dir d'))))"

text \<open>\<^verbatim>\<open>rmSync(p, { recursive: true, force: true })\<close>: a missing path is not an error.\<close>

fun rmSync :: "dir \<Rightarrow> string list \<Rightarrow> dir" where
  "rmSync t [] = Map.empty"
| "rmSync t [n] = t(n := None)"
| "rmSync t (n # ns) =
     (case t n of
        Some (Dir d) \<Rightarrow> t(n \<mapsto> Dir (rmSync d ns))
      | _ \<Rightarrow> t)"

section \<open>The data model of \<^verbatim>\<open>types.ts\<close>\<close>

datatype RuntimeType = Node | Python | Docker | Binary

datatype CapabilityType = Tool | Resource | Prompt

record Author =
  author_name :: string
  email :: "string option"
  url :: "string option"

record Runtime =
  runtime_type :: RuntimeType
  entry :: string
  env :: "string list option"
  envOptional :: "(string \<times> string) list option"

record Installation =
  npmPackage :: "string option"
  pypiPackage :: "string option"
  dockerImage :: "string option"
  githubRepo :: "string option"
  command :: "string option"

record MCPCapability =
  cap_type :: CapabilityType
  cap_name :: string
  cap_description :: string
  inputSchema :: "json option"
  outputSchema :: "json option"

text \<open>The statistics block is never read by the installer; it is carried as a value.\<close>

record MCPServerManifest =
  manifest_id :: string
  manifest_name :: string
  description :: string
  manifest_version :: string
  author :: Author
  repository :: "string option"
  homepage :: "string option"
  license :: string
  manifest_keywords :: "string list"
  mcpVersion :: string
  runtime :: Runtime
  installation :: Installation
  capabilities :: "MCPCapability list"
  stats :: "json option"

record InstalledServer =
  server_id :: string
  server_version :: string
  path :: string
  installedAt :: string
  updatedAt :: string
  config :: "json option"

subsection \<open>The objects as \<^verbatim>\<open>JSON.stringify\<close> sees them\<close>

text \<open>A property whose value is \<^verbatim>\<open>undefined\<close> is left out of the text.\<close>

definition opt_field :: "string \<Rightarrow> ('a \<Rightarrow> json) \<Rightarrow> 'a option \<Rightarrow> (string \<times> json) list" where
  "opt_field k f v = (case v of None \<Rightarrow> [] | Some x \<Rightarrow> [(k, f x)])"

fun json_of_RuntimeType :: "RuntimeType \<Rightarrow> json" where
  "json_of_RuntimeType Node = JStr ''node''"
| "json_of_RuntimeType Python = JStr ''python''"
| "json_of_RuntimeType Docker = JStr ''docker''"
| "json_of_RuntimeType Binary = JStr ''binary''"

fun json_of_CapabilityType :: "CapabilityType \<Rightarrow> json" where
  "json_of_CapabilityType Tool = JStr ''tool''"
| "json_of_CapabilityType Resource = JStr ''resource''"
| "json_of_CapabilityType Prompt = JStr ''prompt''"

definition json_of_Author :: "Author \<Rightarrow> json" where
  "json_of_Author a =
     JObj ([(''name'', JStr (author_name a))]
           @ opt_field ''email'' JStr (email a)
           @ opt_field ''url'' JStr (url a))"

definition json_of_Runtime :: "Runtime \<Rightarrow> json" where
  "json_of_Runtime r =
     JObj ([(''type'', json_of_RuntimeType (runtime_type r)), (''entry'', JStr (entry r))]
           @ opt_field ''env'' (\<lambda>xs. JArr (map JStr xs)) (env r)
           @ opt_field ''envOptional'' (\<lambda>kvs. JObj (map (\<lambda>(k, v). (k, JStr v)) kvs))
               (envOptional r))"

definition json_of_Installation :: "Installation \<Rightarrow> json" where
  "json_of_Installation i =
     JObj (opt_field ''npmPackage'' JStr (npmPackage i)
           @ opt_field ''pypiPackage'' JStr (pypiPackage i)
           @ opt_field ''dockerImage'' JStr (dockerImage i)
           @ opt_field ''githubRepo'' JStr (githubRepo i)
           @ opt_field ''command'' JStr (command i))"

definition json_of_MCPCapability :: "MCPCapability \<Rightarrow> json" where
  "json_of_MCPCapability c =
     JObj ([(''type'', json_of_CapabilityType (cap_type c)),
            (''name'', JStr (cap_name c)),
            (''description'', JStr (cap_description c))]
           @ opt_field ''inputSchema'' (\<lambda>v. v) (inputSchema c)
           @ opt_field ''outputSchema'' (\<lambda>v. v) (outputSchema c))"

definition json_of_manifest :: "MCPServerManifest \<Rightarrow> json" where
  "json_of_manifest m =
     JObj ([(''id'', JStr (manifest_id m)),
            (''name'', JStr (manifest_name m)),
            (''description'', JStr (description m)),
            (''version'', JStr (manifest_version m)),
            (''author'', json_of_Author (author m))]
           @ opt_field ''repository'' JStr (repository m)
           @ opt_field ''homepage'' JStr (homepage m)
           @ [(''license'', JStr (license m)),
              (''keywords'', JArr (map JStr (manifest_keywords m))),
              (''mcpVersion'', JStr (mcpVersion m)),
              (''runtime'', json_of_Runtime (runtime m)),
              (''installation'', json_of_Installation (installation m)),
              (''capabilities'', JArr (map json_of_MCPCapability (capabilities m)))]
           @ opt_field ''stats'' (\<lambda>v. v) (stats m))"

definition json_of_installed :: "InstalledServer \<Rightarrow> json" where
  "json_of_installed s =
     JObj ([(''id'', JStr (server_id s)),
            (''version'', JStr (server_version s)),
            (''path'', JStr (path s)),
            (''installedAt'', JStr (installedAt s)),
            (''updatedAt'', JStr (updatedAt s))]
           @ opt_field ''config'' (\<lambda>v. v) (config s))"

section \<open>The host: configuration, child processes, clock\<close>

text \<open>
  What the installer takes from outside: the configured \<^verbatim>\<open>installDir\<close>; the child
  processes started by \<^verbatim>\<open>execSync\<close>; the clock read by \<^verbatim>\<open>new Date()\<close>; files that lie
  outside \<^verbatim>\<open>installDir\<close>. A child process started with \<^verbatim>\<open>cwd: serverDir\<close> may leave
  that directory in any state and may fail (\<open>Some\<close> of its message) or not; it is
  taken not to touch the rest of the installation directory. The first argument of a
  process is the number of processes started before it, so that the same command may
  end differently at different times. \<open>clock k\<close> is the \<open>k\<close>-th reading of the clock.
\<close>

record host =
  installDir :: string
  exec_in :: "nat \<Rightarrow> string \<Rightarrow> dir \<Rightarrow> string option \<times> dir"
  exec_plain :: "nat \<Rightarrow> string \<Rightarrow> string option"
  clock :: "nat \<Rightarrow> string"
  foreign :: "string \<Rightarrow> content option"

text \<open>
  The state: the children of \<^verbatim>\<open>installDir\<close> (a missing \<^verbatim>\<open>installDir\<close> has none), the
  child processes started so far with their working directory, and the number of
  clock readings so far.
\<close>

record world =
  tree :: dir
  procs :: "(string \<times> string list option) list"
  ticks :: nat

definition INSTALLED_DB :: string where
  "INSTALLED_DB = ''installed.json''"

text \<open>\<^verbatim>\<open>path.join(a, b)\<close>, for a normalised \<open>a\<close> and a \<open>b\<close> without \<^verbatim>\<open>.\<close> and \<^verbatim>\<open>..\<close> segments.\<close>

definition join :: "string \<Rightarrow> string \<Rightarrow> string" where
  "join a b = a @ ''/'' @ b"

text \<open>
  An id that is one plain path segment, so that \<^verbatim>\<open>join(installDir, id)\<close> is the child
  \<open>[id]\<close> of the installation directory.
\<close>

definition safe_segment :: "string \<Rightarrow> bool" where
  "safe_segment x = (x \<noteq> [] \<and> x \<noteq> ''.'' \<and> x \<noteq> ''..'' \<and> CHR ''/'' \<notin> set x)"

text \<open>
  \<^verbatim>\<open>ensureDirectories()\<close> creates \<^verbatim>\<open>cacheDir\<close> and \<^verbatim>\<open>installDir\<close> when they are missing.
  The cache directory is outside the state; creating a missing \<^verbatim>\<open>installDir\<close> gives it
  no children, which is how the state represents it already.
\<close>

definition ensureDirectories :: "world \<Rightarrow> world" where
  "ensureDirectories w = (if \<not> existsSync (tree w) [] then w\<lparr>tree := Map.empty\<rparr> else w)"

definition now :: "host \<Rightarrow> world \<Rightarrow> string \<times> world" where
  "now H w = (clock H (ticks w), w\<lparr>ticks := Suc (ticks w)\<rparr>)"

text \<open>\<^verbatim>\<open>execSync(cmd, { cwd: serverDir, stdio: 'pipe' })\<close> and \<^verbatim>\<open>execSync(cmd, { stdio: 'pipe' })\<close>.\<close>

definition execSync_in :: "host \<Rightarrow> string \<Rightarrow> string \<Rightarrow> world \<Rightarrow> (error + unit) \<times> world" where
  "execSync_in H cmd n w =
     (case tree w n of
        Some (Dir d) \<Rightarrow>
          (let (st, d') = exec_in H (length (procs w)) cmd d;
               w' = w\<lparr>tree := (tree w)(n \<mapsto> Dir d'), procs := procs w @ [(cmd, Some [n])]\<rparr>
           in (case st of None \<Rightarrow> (Inr (), w') | Some msg \<Rightarrow> (Inl (ExecError msg), w')))
      | _ \<Rightarrow> (Inl (FsError ''ENOENT''), w))"

definition execSync :: "host \<Rightarrow> string \<Rightarrow> world \<Rightarrow> (error + unit) \<times> world" where
  "execSync H cmd w =
     (let w' = w\<lparr>procs := procs w @ [(cmd, None)]\<rparr>
      in (case exec_plain H (length (procs w)) cmd of
            None \<Rightarrow> (Inr (), w')
          | Some msg \<Rightarrow> (Inl (ExecError msg), w')))"

section \<open>The installer (\<^verbatim>\<open>installer.ts\<close>)\<close>

definition dbPath :: "string list" where
  "dbPath = [INSTALLED_DB]"

subsection \<open>The ledger\<close>

text \<open>
  \<^verbatim>\<open>listInstalled\<close> returns what \<^verbatim>\<open>JSON.parse\<close> returns, whatever its shape; any
  exception of the read or of the parse is caught.
\<close>

definition listInstalled :: "world \<Rightarrow> json" where
  "listInstalled w =
     (if \<not> existsSync (tree w) dbPath then JArr []
      else (case readFileSync (tree w) dbPath of
              Inl e \<Rightarrow> JArr []
            | Inr c \<Rightarrow> (case JSON_parse c of Inl e \<Rightarrow> JArr [] | Inr v \<Rightarrow> v)))"

text \<open>Calling an array method on a value that is not an array is a \<^verbatim>\<open>TypeError\<close>.\<close>

fun as_array :: "json \<Rightarrow> error + json list" where
  "as_array (JArr xs) = Inr xs"
| "as_array v = Inl TypeError"

text \<open>The callback \<^verbatim>\<open>s => s.id === x\<close>.\<close>

definition id_is :: "string \<Rightarrow> json \<Rightarrow> error + bool" where
  "id_is x s =
     (case get_prop ''id'' (Some s) of Inl e \<Rightarrow> Inl e | Inr v \<Rightarrow> Inr (v = Some (JStr x)))"

text \<open>\<^verbatim>\<open>findIndex\<close> and \<^verbatim>\<open>find\<close> stop at the first hit; \<^verbatim>\<open>filter\<close> visits every element.\<close>

fun findIndex :: "('a \<Rightarrow> error + bool) \<Rightarrow> 'a list \<Rightarrow> error + nat option" where
  "findIndex f [] = Inr None"
| "findIndex f (x # xs) =
     (case f x of
        Inl e \<Rightarrow> Inl e
      | Inr True \<Rightarrow> Inr (Some 0)
      | Inr False \<Rightarrow>
          (case findIndex f xs of
             Inl e \<Rightarrow> Inl e
           | Inr None \<Rightarrow> Inr None
           | Inr (Some i) \<Rightarrow> Inr (Some (Suc i))))"


fun filter_js :: "('a \<Rightarrow> error + bool) \<Rightarrow> 'a list \<Rightarrow> error + 'a list" where
  "filter_js f [] = Inr []"
| "filter_js f (x # xs) =
     (case f x of
        Inl e \<Rightarrow> Inl e
      | Inr b \<Rightarrow>
          (case filter_js f xs of
             Inl e \<Rightarrow> Inl e
           | Inr ys \<Rightarrow> Inr (if b then x # ys else ys)))"

definition addToInstalledDb :: "InstalledServer \<Rightarrow> world \<Rightarrow> error + world" where
  "addToInstalledDb server w =
     (case as_array (listInstalled w) of
        Inl e \<Rightarrow> Inl e
      | Inr installed \<Rightarrow>
          (case findIndex (id_is (server_id server)) installed of
             Inl e \<Rightarrow> Inl e
           | Inr existing \<Rightarrow>
               (let installed' =
                      (case existing of
                         Some i \<Rightarrow> installed[i := json_of_installed server]
                       | None \<Rightarrow> installed @ [json_of_installed server])
                in (case writeFileSync (tree w) dbPath (JSON_stringify (JArr installed')) of
                      Inl e \<Rightarrow> Inl e
                    | Inr t \<Rightarrow> Inr (w\<lparr>tree := t\<rparr>)))))"

text \<open>The callback \<^verbatim>\<open>s => s.id !== serverId\<close> is the negation of \<open>id_is\<close>.\<close>

definition id_is_not :: "string \<Rightarrow> json \<Rightarrow> error + bool" where
  "id_is_not x s = (case id_is x s of Inl e \<Rightarrow> Inl e | Inr b \<Rightarrow> Inr (\<not> b))"

definition removeFromInstalledDb :: "string \<Rightarrow> world \<Rightarrow> error + world" where
  "removeFromInstalledDb serverId w =
     (case as_array (listInstalled w) of
        Inl e \<Rightarrow> Inl e
      | Inr xs \<Rightarrow>
          (case filter_js (id_is_not serverId) xs of
             Inl e \<Rightarrow> Inl e
           | Inr installed \<Rightarrow>
               (case writeFileSync (tree w) dbPath (JSON_stringify (JArr installed)) of
                  Inl e \<Rightarrow> Inl e
                | Inr t \<Rightarrow> Inr (w\<lparr>tree := t\<rparr>))))"

subsection \<open>The installation strategies\<close>

text \<open>A hint counts when it is truthy: present and not the empty string.\<close>

fun hint :: "string option \<Rightarrow> string option" where
  "hint None = None"
| "hint (Some s) = (if s = [] then None else Some s)"

definition installNode :: "host \<Rightarrow> MCPServerManifest \<Rightarrow> string \<Rightarrow> world \<Rightarrow> (error + unit) \<times> world" where
  "installNode H m n w =
     (case hint (npmPackage (installation m)) of
        Some p \<Rightarrow> execSync_in H (''npm install '' @ p) n w
      | None \<Rightarrow>
          (case hint (githubRepo (installation m)) of
             Some r \<Rightarrow>
               (case execSync_in H (''git clone '' @ r @ '' .'') n w of
                  (Inl e, w') \<Rightarrow> (Inl e, w')
                | (Inr u, w') \<Rightarrow> execSync_in H ''npm install'' n w')
           | None \<Rightarrow> (Inl NoInstallationMethod, w)))"

definition installPython :: "host \<Rightarrow> MCPServerManifest \<Rightarrow> string \<Rightarrow> world \<Rightarrow> (error + unit) \<times> world" where
  "installPython H m n w =
     (case hint (pypiPackage (installation m)) of
        Some p \<Rightarrow> execSync_in H (''pip install '' @ p @ '' -t .'') n w
      | None \<Rightarrow>
          (case hint (githubRepo (installation m)) of
             Some r \<Rightarrow>
               (case execSync_in H (''git clone '' @ r @ '' .'') n w of
                  (Inl e, w') \<Rightarrow> (Inl e, w')
                | (Inr u, w') \<Rightarrow> execSync_in H ''pip install -e .'' n w')
           | None \<Rightarrow> (Inl NoInstallationMethod, w)))"

definition compose_text :: "string \<Rightarrow> string \<Rightarrow> string" where
  "compose_text i img =
     ''services:'' @ [CHR 0x0A] @ ''  '' @ i @ '':'' @ [CHR 0x0A]
       @ ''    image: '' @ img @ [CHR 0x0A]"

definition installDocker :: "host \<Rightarrow> MCPServerManifest \<Rightarrow> string \<Rightarrow> world \<Rightarrow> (error + unit) \<times> world" where
  "installDocker H m n w =
     (case hint (dockerImage (installation m)) of
        None \<Rightarrow> (Inl DockerImageNotSpecified, w)
      | Some img \<Rightarrow>
          (case execSync H (''docker pull '' @ img) w of
             (Inl e, w') \<Rightarrow> (Inl e, w')
           | (Inr u, w') \<Rightarrow>
               (case writeFileSync (tree w') [n, ''docker-compose.yml'']
                       (Raw (compose_text (manifest_id m) img)) of
                  Inl e \<Rightarrow> (Inl e, w')
                | Inr t \<Rightarrow> (Inr (), w'\<lparr>tree := t\<rparr>))))"

definition installBinary :: "host \<Rightarrow> MCPServerManifest \<Rightarrow> string \<Rightarrow> world \<Rightarrow> (error + unit) \<times> world" where
  "installBinary H m n w =
     (case hint (githubRepo (installation m)) of
        Some r \<Rightarrow> (Inl BinaryNotImplemented, w)
      | None \<Rightarrow> (Inl NoInstallationMethod, w))"

subsection \<open>install, update, remove\<close>

definition install :: "host \<Rightarrow> MCPServerManifest \<Rightarrow> world \<Rightarrow> (error + InstalledServer) \<times> world" where
  "install H m w =
     (let w0 = ensureDirectories w;
          serverDir = [manifest_id m]
      in if existsSync (tree w0) serverDir then (Inl (AlreadyInstalled (manifest_id m)), w0)
         else
           (case mkdirSync (tree w0) serverDir of
              Inl e \<Rightarrow> (Inl e, w0)
            | Inr t1 \<Rightarrow>
                (case (case runtime_type (runtime m) of
                         Node \<Rightarrow> installNode H m (manifest_id m) (w0\<lparr>tree := t1\<rparr>)
                       | Python \<Rightarrow> installPython H m (manifest_id m) (w0\<lparr>tree := t1\<rparr>)
                       | Docker \<Rightarrow> installDocker H m (manifest_id m) (w0\<lparr>tree := t1\<rparr>)
                       | Binary \<Rightarrow> installBinary H m (manifest_id m) (w0\<lparr>tree := t1\<rparr>)) of
                   (Inl e, w2) \<Rightarrow> (Inl e, w2)
                 | (Inr u, w2) \<Rightarrow>
                     (case writeFileSync (tree w2) (serverDir @ [''manifest.json''])
                             (JSON_stringify (json_of_manifest m)) of
                        Inl e \<Rightarrow> (Inl e, w2)
                      | Inr t3 \<Rightarrow>
                          (let (at1, w4) = now H (w2\<lparr>tree := t3\<rparr>);
                               (at2, w5) = now H w4;
                               installed =
                                 \<lparr>server_id = manifest_id m,
                                  server_version = manifest_version m,
                                  path = join (installDir H) (manifest_id m),
                                  installedAt = at1,
                                  updatedAt = at2,
                                  config = None\<rparr>
                           in (case addToInstalledDb installed w5 of
                                 Inl e \<Rightarrow> (Inl e, w5)
                               | Inr w6 \<Rightarrow> (Inr installed, w6)))))))"

definition remove :: "string \<Rightarrow> world \<Rightarrow> (error + unit) \<times> world" where
  "remove serverId w =
     (let serverDir = [serverId]
      in if \<not> existsSync (tree w) serverDir then (Inl (NotInstalled serverId), w)
         else
           (let w1 = w\<lparr>tree := rmSync (tree w) serverDir\<rparr>
            in (case removeFromInstalledDb serverId w1 of
                  Inl e \<Rightarrow> (Inl e, w1)
                | Inr w2 \<Rightarrow> (Inr (), w2))))"

definition update :: "host \<Rightarrow> MCPServerManifest \<Rightarrow> world \<Rightarrow> (error + InstalledServer) \<times> world" where
  "update H m w =
     (let serverDir = [manifest_id m]
      in if \<not> existsSync (tree w) serverDir then (Inl (NotInstalledUpdate (manifest_id m)), w)
         else
           (case remove (manifest_id m) w of
              (Inl e, w1) \<Rightarrow> (Inl e, w1)
            | (Inr u, w1) \<Rightarrow> install H m w1))"

subsection \<open>Queries\<close>




fun digits :: "nat \<Rightarrow> string" where
  "digits n =
     (if n < 10 then [char_of (48 + n)] else digits (n div 10) @ [char_of (48 + n mod 10)])"












section \<open>Reading the ledger and running several operations\<close>

text \<open>
  The records of the ledger as the installer sees them (none when the document is not
  an array), the id of a record (a record has id \<open>x\<close> when the callback
  \<^verbatim>\<open>s => s.id === x\<close> answers true), and the invariant of the ledger: no two records
  with the same id.
\<close>

definition ledger :: "world \<Rightarrow> json list" where
  "ledger w = (case listInstalled w of JArr xs \<Rightarrow> xs | _ \<Rightarrow> [])"

fun id_of :: "json \<Rightarrow> string option" where
  "id_of (JObj kvs) = (case map_of kvs ''id'' of Some (JStr x) \<Rightarrow> Some x | _ \<Rightarrow> None)"
| "id_of v = None"

definition records_of :: "string \<Rightarrow> world \<Rightarrow> json list" where
  "records_of x w = filter (\<lambda>s. id_of s = Some x) (ledger w)"

definition ledger_ids :: "world \<Rightarrow> string list" where
  "ledger_ids w = List.map_filter id_of (ledger w)"

definition ledger_inv :: "world \<Rightarrow> bool" where
  "ledger_inv w = distinct (ledger_ids w)"

datatype op = Install MCPServerManifest | Update MCPServerManifest | Remove string

fun op_id :: "op \<Rightarrow> string" where
  "op_id (Install m) = manifest_id m"
| "op_id (Update m) = manifest_id m"
| "op_id (Remove x) = x"

fun run_op :: "host \<Rightarrow> op \<Rightarrow> world \<Rightarrow> (error + unit) \<times> world" where
  "run_op H (Install m) w =
     (case install H m w of (Inl e, w') \<Rightarrow> (Inl e, w') | (Inr r, w') \<Rightarrow> (Inr (), w'))"
| "run_op H (Update m) w =
     (case update H m w of (Inl e, w') \<Rightarrow> (Inl e, w') | (Inr r, w') \<Rightarrow> (Inr (), w'))"
| "run_op H (Remove x) w = remove x w"

text \<open>The state after a sequence of operations that all succeed; \<open>None\<close> when one fails.\<close>

fun run_all :: "host \<Rightarrow> op list \<Rightarrow> world \<Rightarrow> world option" where
  "run_all H [] w = Some w"
| "run_all H (a # as) w =
     (case run_op H a w of (Inl e, w') \<Rightarrow> None | (Inr u, w') \<Rightarrow> run_all H as w')"

text \<open>The record that \<^verbatim>\<open>install\<close> builds when it starts in the state \<open>w\<close>.\<close>

definition new_record :: "host \<Rightarrow> MCPServerManifest \<Rightarrow> world \<Rightarrow> InstalledServer" where
  "new_record H m w =
     \<lparr>server_id = manifest_id m, server_version = manifest_version m,
      path = join (installDir H) (manifest_id m),
      installedAt = clock H (ticks w), updatedAt = clock H (Suc (ticks w)), config = None\<rparr>"

section \<open>Concrete hosts, manifests and states\<close>

definition demo_host :: host where
  "demo_host =
     \<lparr>installDir = ''/srv/servers'',
      exec_in = (\<lambda>k cmd d. (None, d(''node_modules'' \<mapsto> Dir Map.empty))),
      exec_plain = (\<lambda>k cmd. None),
      clock = (\<lambda>k. ''t'' @ digits k),
      foreign = (\<lambda>p. None)\<rparr>"

definition demo_manifest ::
  "string \<Rightarrow> string \<Rightarrow> RuntimeType \<Rightarrow> Installation \<Rightarrow> MCPServerManifest" where
  "demo_manifest i v rt ins =
     \<lparr>manifest_id = i, manifest_name = ''Server '' @ i,
      description = ''Description for '' @ i,
      manifest_version = v,
      author = \<lparr>author_name = ''Test Author'', email = None, url = None\<rparr>,
      repository = None, homepage = None, license = ''MIT'',
      manifest_keywords = [''test'', i], mcpVersion = ''1.0'',
      runtime = \<lparr>runtime_type = rt, entry = ''index.js'', env = None, envOptional = None\<rparr>,
      installation = ins, capabilities = [], stats = None\<rparr>"

definition no_hints :: Installation where
  "no_hints =
     \<lparr>npmPackage = None, pypiPackage = None, dockerImage = None, githubRepo = None,
      command = None\<rparr>"

definition npm_hint :: "string \<Rightarrow> Installation" where
  "npm_hint p = no_hints\<lparr>npmPackage := Some p\<rparr>"

definition fresh :: world where
  "fresh = \<lparr>tree = Map.empty, procs = [], ticks = 0\<rparr>"

definition with_file :: "string \<Rightarrow> content \<Rightarrow> world \<Rightarrow> world" where
  "with_file n c w = w\<lparr>tree := (tree w)(n \<mapsto> File c)\<rparr>"

definition with_dir :: "string \<Rightarrow> world \<Rightarrow> world" where
  "with_dir n w = w\<lparr>tree := (tree w)(n \<mapsto> Dir Map.empty)\<rparr>"


text \<open>The states and manifests of the worked examples.\<close>

definition alpha_manifest :: MCPServerManifest where
  "alpha_manifest = demo_manifest ''alpha'' ''1.0.0'' Node (npm_hint ''alpha-package'')"

definition alpha_installed :: world where
  "alpha_installed = snd (install demo_host alpha_manifest fresh)"

definition beta_v1 :: MCPServerManifest where
  "beta_v1 = demo_manifest ''beta'' ''1.0.0'' Node (npm_hint ''beta-package'')"

definition beta_v2 :: MCPServerManifest where
  "beta_v2 = demo_manifest ''beta'' ''1.1.0'' Node (npm_hint ''beta-package'')"

definition beta_installed :: world where
  "beta_installed = snd (install demo_host beta_v1 fresh)"

definition beta_updated :: world where
  "beta_updated = snd (update demo_host beta_v2 beta_installed)"

definition beta_record :: "string \<Rightarrow> string \<Rightarrow> string \<Rightarrow> InstalledServer" where
  "beta_record v t1 t2 =
     \<lparr>server_id = ''beta'', server_version = v, path = ''/srv/servers/beta'',
      installedAt = t1, updatedAt = t2, config = None\<rparr>"

definition tool_manifest :: MCPServerManifest where
  "tool_manifest = demo_manifest ''tool'' ''0.3.0'' Binary no_hints"

definition tool_manifest_repo :: MCPServerManifest where
  "tool_manifest_repo =
     demo_manifest ''tool'' ''0.3.0'' Binary (no_hints\<lparr>githubRepo := Some ''https://example.org/tool.git''\<rparr>)"




section \<open>Basic facts\<close>

lemma ensureDirectories_id [simp]: "ensureDirectories w = w"
  by (simp add: ensureDirectories_def existsSync_def)

lemma existsSync_child [simp]: "existsSync t [n] = (t n \<noteq> None)"
  by (auto simp: existsSync_def split: option.splits node.splits)

lemma mkdirSync_child [simp]: "t n = None \<Longrightarrow> mkdirSync t [n] = Inr (t(n \<mapsto> Dir Map.empty))"
  by simp

lemma listInstalled_cases:
  "listInstalled w =
     (case tree w INSTALLED_DB of Some (File (Encoded v)) \<Rightarrow> v | _ \<Rightarrow> JArr [])"
  by (auto simp: listInstalled_def dbPath_def readFileSync_def
      split: option.splits node.splits content.splits)

section \<open>Array callbacks and the ids of the ledger\<close>

lemma id_is_iff: "id_is x s = Inr b \<Longrightarrow> b = (id_of s = Some x)"
  by (cases s) (auto simp: id_is_def split: option.splits json.splits)

lemma map_filter_none: "(x \<notin> set (List.map_filter id_of xs)) = (filter (\<lambda>s. id_of s = Some x) xs = [])"
  by (induction xs) (auto simp: List.map_filter_simps split: option.splits)

lemma findIndex_None:
  "findIndex (id_is x) xs = Inr None \<Longrightarrow> filter (\<lambda>s. id_of s = Some x) xs = []"
  by (induction xs) (auto split: sum.splits bool.splits option.splits dest: id_is_iff)

lemma findIndex_Some:
  "findIndex (id_is x) xs = Inr (Some i) \<Longrightarrow> i < length xs \<and> id_of (xs ! i) = Some x"
proof (induction xs arbitrary: i)
  case Nil
  then show ?case by simp
next
  case (Cons a xs)
  then show ?case
    by (auto split: sum.splits bool.splits option.splits dest: id_is_iff)
qed

lemma filter_js_id_is_not:
  "filter_js (id_is_not x) xs = Inr ys \<Longrightarrow> ys = filter (\<lambda>s. id_of s \<noteq> Some x) xs"
proof (induction xs arbitrary: ys)
  case Nil
  then show ?case by simp
next
  case (Cons a xs)
  then show ?case
    by (auto simp: id_is_not_def split: sum.splits if_splits dest: id_is_iff)
qed

lemma map_id_of_update:
  "i < length xs \<Longrightarrow> id_of (xs ! i) = id_of y \<Longrightarrow> map id_of (xs[i := y]) = map id_of xs"
  by (simp add: map_update list_update_same_conv)

lemma map_filter_conv: "List.map_filter f xs = map the (filter (\<lambda>v. v \<noteq> None) (map f xs))"
  by (induction xs) (auto simp: List.map_filter_simps split: option.splits)

lemma ids_update:
  "i < length xs \<Longrightarrow> id_of (xs ! i) = id_of y \<Longrightarrow>
   List.map_filter id_of (xs[i := y]) = List.map_filter id_of xs"
  by (simp add: map_filter_conv map_id_of_update)

lemma ids_append: "List.map_filter id_of (xs @ [y]) = List.map_filter id_of xs @ (case id_of y of None \<Rightarrow> [] | Some x \<Rightarrow> [x])"
  by (induction xs) (auto simp: List.map_filter_simps split: option.splits)

lemma ids_filter_subset:
  "set (List.map_filter id_of (filter P xs)) \<subseteq> set (List.map_filter id_of xs)"
  by (induction xs) (auto simp: List.map_filter_simps split: option.splits)

lemma ids_filter_distinct:
  "distinct (List.map_filter id_of xs) \<Longrightarrow> distinct (List.map_filter id_of (filter P xs))"
proof (induction xs)
  case Nil
  then show ?case by simp
next
  case (Cons a xs)
  then show ?case
    using ids_filter_subset [of P xs]
    by (auto simp: List.map_filter_simps split: option.splits)
qed

lemma has_id_mem:
  "j < length xs \<Longrightarrow> id_of (xs ! j) = Some x \<Longrightarrow> x \<in> set (List.map_filter id_of xs)"
proof (induction xs arbitrary: j)
  case Nil
  then show ?case by simp
next
  case (Cons a xs)
  then show ?case
    by (cases j) (auto simp: List.map_filter_simps split: option.splits)
qed

lemma filter_update_unique:
  "distinct (List.map_filter id_of xs) \<Longrightarrow> i < length xs \<Longrightarrow> id_of (xs ! i) = Some x \<Longrightarrow>
   id_of y = Some x \<Longrightarrow> filter (\<lambda>s. id_of s = Some x) (xs[i := y]) = [y]"
proof (induction xs arbitrary: i)
  case Nil
  then show ?case by simp
next
  case (Cons a xs)
  show ?case
  proof (cases i)
    case 0
    from Cons.prems 0 have "x \<notin> set (List.map_filter id_of xs)"
      by (simp add: List.map_filter_simps)
    then have "filter (\<lambda>s. id_of s = Some x) xs = []"
      by (simp only: map_filter_none)
    with 0 Cons.prems(4) show ?thesis
      by simp
  next
    case (Suc j)
    from Cons.prems Suc have j: "j < length xs" "id_of (xs ! j) = Some x"
      by simp_all
    then have m: "x \<in> set (List.map_filter id_of xs)"
      by (rule has_id_mem)
    from Cons.prems(1) m have a: "id_of a \<noteq> Some x"
      by (cases "id_of a") (auto simp: List.map_filter_simps)
    from Cons.prems(1) have d: "distinct (List.map_filter id_of xs)"
      by (cases "id_of a") (auto simp: List.map_filter_simps)
    from Cons.IH [OF d j Cons.prems(4)] a Suc show ?thesis
      by simp
  qed
qed

section \<open>What a successful strategy leaves behind\<close>

lemma execSync_in_frame:
  assumes "execSync_in H cmd n w = (r, w')"
  shows "ticks w' = ticks w"
    and "k \<noteq> n \<Longrightarrow> tree w' k = tree w k"
    and "r = Inr u \<Longrightarrow> \<exists>d. tree w' n = Some (Dir d)"
  using assms
  by (auto simp: execSync_in_def Let_def split: option.splits node.splits prod.splits)

lemma installNode_frame:
  assumes "installNode H m n w = (Inr u, w')"
  shows "ticks w' = ticks w \<and> (\<forall>k. k \<noteq> n \<longrightarrow> tree w' k = tree w k) \<and> (\<exists>d. tree w' n = Some (Dir d))"
proof (cases "hint (npmPackage (installation m))")
  case (Some p)
  with assms have "execSync_in H (''npm install '' @ p) n w = (Inr u, w')"
    by (simp add: installNode_def)
  from execSync_in_frame [OF this] show ?thesis by blast
next
  case None
  note np = this
  show ?thesis
  proof (cases "hint (githubRepo (installation m))")
    case None
    with np assms show ?thesis by (simp add: installNode_def)
  next
    case (Some r)
    obtain r1 w1 where a: "execSync_in H (''git clone '' @ r @ '' .'') n w = (r1, w1)"
      by (cases "execSync_in H (''git clone '' @ r @ '' .'') n w")
    with np Some assms have b: "execSync_in H ''npm install'' n w1 = (Inr u, w')"
      by (auto simp: installNode_def split: sum.splits)
    from execSync_in_frame(1,2) [OF a] execSync_in_frame [OF b] show ?thesis
      by auto
  qed
qed

lemma installPython_frame:
  assumes "installPython H m n w = (Inr u, w')"
  shows "ticks w' = ticks w \<and> (\<forall>k. k \<noteq> n \<longrightarrow> tree w' k = tree w k) \<and> (\<exists>d. tree w' n = Some (Dir d))"
proof (cases "hint (pypiPackage (installation m))")
  case (Some p)
  with assms have "execSync_in H (''pip install '' @ p @ '' -t .'') n w = (Inr u, w')"
    by (simp add: installPython_def)
  from execSync_in_frame [OF this] show ?thesis by blast
next
  case None
  note np = this
  show ?thesis
  proof (cases "hint (githubRepo (installation m))")
    case None
    with np assms show ?thesis by (simp add: installPython_def)
  next
    case (Some r)
    obtain r1 w1 where a: "execSync_in H (''git clone '' @ r @ '' .'') n w = (r1, w1)"
      by (cases "execSync_in H (''git clone '' @ r @ '' .'') n w")
    with np Some assms have b: "execSync_in H ''pip install -e .'' n w1 = (Inr u, w')"
      by (auto simp: installPython_def split: sum.splits)
    from execSync_in_frame(1,2) [OF a] execSync_in_frame [OF b] show ?thesis
      by auto
  qed
qed

lemma installDocker_frame:
  assumes "installDocker H m n w = (Inr u, w')"
  shows "ticks w' = ticks w \<and> (\<forall>k. k \<noteq> n \<longrightarrow> tree w' k = tree w k) \<and> (\<exists>d. tree w' n = Some (Dir d))"
  using assms
  by (auto simp: installDocker_def execSync_def Let_def
      split: option.splits sum.splits prod.splits node.splits if_splits)

lemma installBinary_fails: "installBinary H m n w \<noteq> (Inr u, w')"
  by (simp add: installBinary_def split: option.splits)

section \<open>Writing the ledger\<close>

lemma write_in_dir:
  "t n = Some (Dir d) \<Longrightarrow>
   writeFileSync t [n, f] c =
     (case d f of Some (Dir x) \<Rightarrow> Inl (FsError ''EISDIR'') | _ \<Rightarrow> Inr (t(n \<mapsto> Dir (d(f \<mapsto> File c)))))"
  by (auto split: option.splits node.splits)

lemma write_db:
  "writeFileSync t dbPath c = Inr t' \<Longrightarrow>
   t' = t(INSTALLED_DB \<mapsto> File c) \<and> (\<forall>d. t INSTALLED_DB \<noteq> Some (Dir d))"
  by (auto simp: dbPath_def split: option.splits node.splits)

lemma listInstalled_after_write [simp]:
  "listInstalled (w\<lparr>tree := (tree w)(INSTALLED_DB \<mapsto> File (Encoded v))\<rparr>) = v"
  by (simp add: listInstalled_cases)

lemma listInstalled_cong:
  "tree w INSTALLED_DB = tree w' INSTALLED_DB \<Longrightarrow> listInstalled w = listInstalled w'"
  by (simp add: listInstalled_cases)

lemma addToInstalledDb_ok:
  assumes "addToInstalledDb s w = Inr w'"
  shows "\<exists>xs ex. listInstalled w = JArr xs \<and> findIndex (id_is (server_id s)) xs = Inr ex \<and>
           w' = w\<lparr>tree := (tree w)(INSTALLED_DB \<mapsto> File (Encoded (JArr
                  (case ex of Some i \<Rightarrow> xs[i := json_of_installed s]
                   | None \<Rightarrow> xs @ [json_of_installed s]))))\<rparr> \<and>
           (\<forall>d. tree w INSTALLED_DB \<noteq> Some (Dir d))"
proof -
  from assms obtain xs where xs: "as_array (listInstalled w) = Inr xs"
    by (auto simp: addToInstalledDb_def split: sum.splits)
  then have l: "listInstalled w = JArr xs"
    by (cases "listInstalled w") auto
  from assms xs obtain ex where ex: "findIndex (id_is (server_id s)) xs = Inr ex"
    by (auto simp: addToInstalledDb_def split: sum.splits)
  from assms xs ex obtain t where
    t: "writeFileSync (tree w) dbPath (JSON_stringify (JArr
          (case ex of Some i \<Rightarrow> xs[i := json_of_installed s]
           | None \<Rightarrow> xs @ [json_of_installed s]))) = Inr t" and w': "w' = w\<lparr>tree := t\<rparr>"
    by (auto simp: addToInstalledDb_def Let_def split: sum.splits)
  from write_db [OF t] l ex w' show ?thesis
    by (auto simp: JSON_stringify_def)
qed

lemma removeFromInstalledDb_ok:
  assumes "removeFromInstalledDb x w = Inr w'"
  shows "\<exists>xs. listInstalled w = JArr xs \<and>
           w' = w\<lparr>tree := (tree w)(INSTALLED_DB \<mapsto> File (Encoded (JArr
                  (filter (\<lambda>s. id_of s \<noteq> Some x) xs))))\<rparr> \<and>
           (\<forall>d. tree w INSTALLED_DB \<noteq> Some (Dir d))"
proof -
  from assms obtain xs where xs: "as_array (listInstalled w) = Inr xs"
    by (auto simp: removeFromInstalledDb_def split: sum.splits)
  then have l: "listInstalled w = JArr xs"
    by (cases "listInstalled w") auto
  from assms xs obtain ys where ys: "filter_js (id_is_not x) xs = Inr ys"
    by (auto simp: removeFromInstalledDb_def split: sum.splits)
  from assms xs ys obtain t where
    t: "writeFileSync (tree w) dbPath (JSON_stringify (JArr ys)) = Inr t" and w': "w' = w\<lparr>tree := t\<rparr>"
    by (auto simp: removeFromInstalledDb_def split: sum.splits)
  from write_db [OF t] l filter_js_id_is_not [OF ys] w' show ?thesis
    by (auto simp: JSON_stringify_def)
qed

section \<open>A successful install\<close>

lemma install_ok:
  assumes ok: "install H m w = (Inr r, w')"
  shows "\<exists>d xs ex.
     tree w (manifest_id m) = None \<and> manifest_id m \<noteq> INSTALLED_DB \<and>
     r = new_record H m w \<and>
     listInstalled w = JArr xs \<and> findIndex (id_is (manifest_id m)) xs = Inr ex \<and>
     tree w' = (tree w)
       (manifest_id m \<mapsto> Dir (d(''manifest.json'' \<mapsto> File (Encoded (json_of_manifest m)))),
        INSTALLED_DB \<mapsto> File (Encoded (JArr
          (case ex of Some i \<Rightarrow> xs[i := json_of_installed r]
           | None \<Rightarrow> xs @ [json_of_installed r])))) \<and>
     ticks w' = Suc (Suc (ticks w))"
proof -
  let ?n = "manifest_id m"
  let ?w1 = "w\<lparr>tree := (tree w)(?n \<mapsto> Dir Map.empty)\<rparr>"
  let ?D = "case runtime_type (runtime m) of
              Node \<Rightarrow> installNode H m ?n ?w1
            | Python \<Rightarrow> installPython H m ?n ?w1
            | Docker \<Rightarrow> installDocker H m ?n ?w1
            | Binary \<Rightarrow> installBinary H m ?n ?w1"
  let ?c = "JSON_stringify (json_of_manifest m)"
  from ok have ex: "tree w ?n = None"
    by (auto simp: install_def Let_def split: if_splits)
  obtain rD w2 where D: "?D = (rD, w2)"
    by (cases ?D)
  from ok ex D have rD: "rD = Inr ()"
    by (auto simp: install_def Let_def split: sum.splits)
  have fr: "ticks w2 = ticks ?w1 \<and> (\<forall>k. k \<noteq> ?n \<longrightarrow> tree w2 k = tree ?w1 k) \<and>
            (\<exists>d. tree w2 ?n = Some (Dir d))"
  proof (cases "runtime_type (runtime m)")
    case Node
    with D rD show ?thesis using installNode_frame [of H m ?n ?w1 "()" w2] by simp
  next
    case Python
    with D rD show ?thesis using installPython_frame [of H m ?n ?w1 "()" w2] by simp
  next
    case Docker
    with D rD show ?thesis using installDocker_frame [of H m ?n ?w1 "()" w2] by simp
  next
    case Binary
    with D rD show ?thesis using installBinary_fails [of H m ?n ?w1 "()" w2] by simp
  qed
  then obtain d where d: "tree w2 ?n = Some (Dir d)"
    by blast
  from ok ex D rD obtain t3 where
    t3: "writeFileSync (tree w2) [?n, ''manifest.json''] ?c = Inr t3"
    by (auto simp: install_def Let_def split: sum.splits)
  with d have t3_eq: "t3 = (tree w2)(?n \<mapsto> Dir (d(''manifest.json'' \<mapsto> File ?c)))"
    by (auto simp: write_in_dir split: option.splits node.splits)
  let ?w5 = "w2\<lparr>tree := t3, ticks := Suc (Suc (ticks w2))\<rparr>"
  let ?r = "\<lparr>server_id = ?n, server_version = manifest_version m,
            path = join (installDir H) ?n,
            installedAt = clock H (ticks w2), updatedAt = clock H (Suc (ticks w2)), config = None\<rparr>"
  from ok ex D rD t3 have add: "addToInstalledDb ?r ?w5 = Inr w'" and r: "r = ?r"
    by (auto simp: install_def Let_def now_def split: sum.splits)
  from addToInstalledDb_ok [OF add] obtain xs e where
    l5: "listInstalled ?w5 = JArr xs" and fi: "findIndex (id_is ?n) xs = Inr e" and
    w': "w' = ?w5\<lparr>tree := (tree ?w5)(INSTALLED_DB \<mapsto> File (Encoded (JArr
                  (case e of Some i \<Rightarrow> xs[i := json_of_installed ?r]
                   | None \<Rightarrow> xs @ [json_of_installed ?r]))))\<rparr>" and
    nd: "\<forall>d. tree ?w5 INSTALLED_DB \<noteq> Some (Dir d)"
    by auto
  from nd t3_eq have ne: "?n \<noteq> INSTALLED_DB"
    by auto
  with fr t3_eq have "tree ?w5 INSTALLED_DB = tree w INSTALLED_DB"
    by simp
  then have l: "listInstalled w = JArr xs"
    using l5 listInstalled_cong [of ?w5 w] by simp
  have tr: "t3 = (tree w)(?n \<mapsto> Dir (d(''manifest.json'' \<mapsto> File ?c)))"
    using fr t3_eq by (auto simp: fun_eq_iff)
  from fr have tk: "ticks w2 = ticks w"
    by simp
  have "tree w' = (tree w)
       (?n \<mapsto> Dir (d(''manifest.json'' \<mapsto> File (Encoded (json_of_manifest m)))),
        INSTALLED_DB \<mapsto> File (Encoded (JArr
          (case e of Some i \<Rightarrow> xs[i := json_of_installed r]
           | None \<Rightarrow> xs @ [json_of_installed r]))))"
    unfolding w' tr r JSON_stringify_def by simp
  moreover have "ticks w' = Suc (Suc (ticks w))"
    by (simp add: w' tk)
  moreover have "r = new_record H m w"
    by (simp add: r new_record_def tk)
  ultimately show ?thesis
    using ex ne l fi by blast
qed

section \<open>A successful remove, a successful update, and the ledger after them\<close>

lemma remove_ok:
  assumes "remove x w = (Inr u, w')"
  shows "\<exists>xs. tree w x \<noteq> None \<and>
           listInstalled (w\<lparr>tree := (tree w)(x := None)\<rparr>) = JArr xs \<and>
           w' = w\<lparr>tree := (tree w)(x := None, INSTALLED_DB \<mapsto> File (Encoded (JArr
                  (filter (\<lambda>s. id_of s \<noteq> Some x) xs))))\<rparr>"
proof -
  let ?w1 = "w\<lparr>tree := (tree w)(x := None)\<rparr>"
  from assms have ex: "tree w x \<noteq> None"
    by (auto simp: remove_def Let_def split: if_splits)
  with assms have "removeFromInstalledDb x ?w1 = Inr w'"
    by (auto simp: remove_def Let_def split: sum.splits)
  from removeFromInstalledDb_ok [OF this] ex show ?thesis
    by auto
qed

lemma findIndex_absent:
  assumes "findIndex (id_is x) xs = Inr ex" and "filter (\<lambda>s. id_of s = Some x) xs = []"
  shows "ex = None"
proof (cases ex)
  case None
  then show ?thesis .
next
  case (Some i)
  with assms(1) have "i < length xs \<and> id_of (xs ! i) = Some x"
    by (simp add: findIndex_Some)
  then have "xs ! i \<in> set (filter (\<lambda>s. id_of s = Some x) xs)"
    by simp
  with assms(2) show ?thesis by simp
qed

lemma ledger_JArr: "listInstalled w = JArr xs \<Longrightarrow> ledger w = xs"
  by (simp add: ledger_def)

lemma id_of_installed [simp]: "id_of (json_of_installed s) = Some (server_id s)"
  by (simp add: json_of_installed_def)

lemma install_records:
  assumes ok: "install H m w = (Inr r, w')"
  shows "ledger_inv w \<Longrightarrow> records_of (manifest_id m) w' = [json_of_installed r]"
    and "records_of (manifest_id m) w = [] \<Longrightarrow> records_of (manifest_id m) w' = [json_of_installed r]"
    and "ledger_inv w \<Longrightarrow> ledger_inv w'"
    and "server_id r = manifest_id m"
proof -
  let ?n = "manifest_id m"
  from install_ok [OF ok] obtain d xs ex where
    r: "r = new_record H m w" and l: "listInstalled w = JArr xs" and
    fi: "findIndex (id_is ?n) xs = Inr ex" and
    t: "tree w' = (tree w)
       (?n \<mapsto> Dir (d(''manifest.json'' \<mapsto> File (Encoded (json_of_manifest m)))),
        INSTALLED_DB \<mapsto> File (Encoded (JArr
          (case ex of Some i \<Rightarrow> xs[i := json_of_installed r]
           | None \<Rightarrow> xs @ [json_of_installed r]))))"
    by blast
  show sid: "server_id r = ?n"
    by (simp add: r new_record_def)
  have l': "ledger w' = (case ex of Some i \<Rightarrow> xs[i := json_of_installed r]
           | None \<Rightarrow> xs @ [json_of_installed r])"
    by (simp add: ledger_def listInstalled_cases t)
  have lw: "ledger w = xs"
    by (rule ledger_JArr [OF l])
  show "records_of ?n w' = [json_of_installed r]" if "records_of ?n w = []"
  proof -
    from that lw have "filter (\<lambda>s. id_of s = Some ?n) xs = []"
      by (simp add: records_of_def)
    with fi have "ex = None" "filter (\<lambda>s. id_of s = Some ?n) xs = []"
      by (simp_all add: findIndex_absent)
    with l' sid show ?thesis
      by (simp add: records_of_def)
  qed
  show "records_of ?n w' = [json_of_installed r]" if inv: "ledger_inv w"
  proof (cases ex)
    case None
    with fi have "filter (\<lambda>s. id_of s = Some ?n) xs = []"
      by (simp add: findIndex_None)
    with l' None sid show ?thesis
      by (simp add: records_of_def)
  next
    case (Some i)
    with fi have i: "i < length xs" "id_of (xs ! i) = Some ?n"
      by (simp_all add: findIndex_Some)
    from inv lw have "distinct (List.map_filter id_of xs)"
      by (simp add: ledger_inv_def ledger_ids_def)
    from filter_update_unique [OF this i, of "json_of_installed r"] sid l' Some show ?thesis
      by (simp add: records_of_def)
  qed
  show "ledger_inv w'" if inv: "ledger_inv w"
  proof (cases ex)
    case None
    with fi have "filter (\<lambda>s. id_of s = Some ?n) xs = []"
      by (simp add: findIndex_None)
    then have "?n \<notin> set (List.map_filter id_of xs)"
      by (simp add: map_filter_none)
    with inv lw l' None sid show ?thesis
      by (simp add: ledger_inv_def ledger_ids_def ids_append)
  next
    case (Some i)
    with fi have i: "i < length xs" "id_of (xs ! i) = Some ?n"
      by (simp_all add: findIndex_Some)
    with inv lw l' Some sid show ?thesis
      by (simp add: ledger_inv_def ledger_ids_def ids_update)
  qed
qed

lemma remove_records:
  assumes ok: "remove x w = (Inr u, w')" and ne: "x \<noteq> INSTALLED_DB"
  shows "tree w' x = None" and "records_of x w' = []" and "ledger_inv w \<Longrightarrow> ledger_inv w'"
    and "ticks w' = ticks w"
proof -
  from remove_ok [OF ok] obtain xs where
    l1: "listInstalled (w\<lparr>tree := (tree w)(x := None)\<rparr>) = JArr xs" and
    w': "w' = w\<lparr>tree := (tree w)(x := None, INSTALLED_DB \<mapsto> File (Encoded (JArr
                  (filter (\<lambda>s. id_of s \<noteq> Some x) xs))))\<rparr>"
    by blast
  from l1 ne have l: "listInstalled w = JArr xs"
    by (simp add: listInstalled_cases)
  have l': "ledger w' = filter (\<lambda>s. id_of s \<noteq> Some x) xs"
    by (simp add: ledger_def listInstalled_cases w')
  show "tree w' x = None"
    using ne by (simp add: w')
  show "records_of x w' = []"
    by (simp add: records_of_def l')
  show "ticks w' = ticks w"
    by (simp add: w')
  show "ledger_inv w'" if "ledger_inv w"
    using that ledger_JArr [OF l] l'
    by (simp add: ledger_inv_def ledger_ids_def ids_filter_distinct)
qed

lemma update_ok:
  assumes "update H m w = (Inr r, w')"
  shows "\<exists>w1. tree w (manifest_id m) \<noteq> None \<and> remove (manifest_id m) w = (Inr (), w1) \<and>
     install H m w1 = (Inr r, w')"
proof -
  from assms have ex: "tree w (manifest_id m) \<noteq> None"
    by (auto simp: update_def Let_def split: if_splits)
  obtain r1 w1 where rm: "remove (manifest_id m) w = (r1, w1)"
    by (cases "remove (manifest_id m) w")
  with assms ex have "r1 = Inr ()" and "install H m w1 = (Inr r, w')"
    by (auto simp: update_def Let_def split: sum.splits)
  with rm ex show ?thesis by blast
qed

lemma update_records:
  assumes ok: "update H m w = (Inr r, w')"
  shows "records_of (manifest_id m) w' = [json_of_installed r]"
    and "ledger_inv w \<Longrightarrow> ledger_inv w'"
    and "r = new_record H m w"
proof -
  from update_ok [OF ok] obtain w1 where
    rm: "remove (manifest_id m) w = (Inr (), w1)" and ins: "install H m w1 = (Inr r, w')"
    by blast
  from install_ok [OF ins] have ne: "manifest_id m \<noteq> INSTALLED_DB" and r: "r = new_record H m w1"
    by blast+
  from remove_records(2) [OF rm ne] install_records(2) [OF ins]
  show "records_of (manifest_id m) w' = [json_of_installed r]"
    by simp
  show "ledger_inv w'" if "ledger_inv w"
    using that remove_records(3) [OF rm ne] install_records(3) [OF ins] by simp
  show "r = new_record H m w"
    using r remove_records(4) [OF rm ne] by (simp add: new_record_def)
qed

lemma remove_inv:
  assumes ok: "remove x w = (Inr u, w')" and inv: "ledger_inv w"
  shows "ledger_inv w'"
proof (cases "x = INSTALLED_DB")
  case False
  from remove_records(3) [OF ok False inv] show ?thesis .
next
  case True
  from remove_ok [OF ok] obtain xs where
    l1: "listInstalled (w\<lparr>tree := (tree w)(x := None)\<rparr>) = JArr xs" and
    w': "w' = w\<lparr>tree := (tree w)(x := None, INSTALLED_DB \<mapsto> File (Encoded (JArr
                  (filter (\<lambda>s. id_of s \<noteq> Some x) xs))))\<rparr>"
    by blast
  from l1 True have "xs = []"
    by (simp add: listInstalled_cases)
  then show ?thesis
    by (simp add: w' ledger_inv_def ledger_ids_def ledger_def listInstalled_cases
        List.map_filter_simps)
qed

lemma run_op_inv:
  assumes "run_op H a w = (Inr u, w')" and "ledger_inv w"
  shows "ledger_inv w'"
proof (cases a)
  case (Install m)
  with assms(1) obtain r where "install H m w = (Inr r, w')"
    by (auto split: prod.splits sum.splits)
  from install_records(3) [OF this assms(2)] show ?thesis .
next
  case (Update m)
  with assms(1) obtain r where "update H m w = (Inr r, w')"
    by (auto split: prod.splits sum.splits)
  from update_records(2) [OF this assms(2)] show ?thesis .
next
  case (Remove x)
  with assms(1) have "remove x w = (Inr u, w')"
    by simp
  from remove_inv [OF this assms(2)] show ?thesis .
qed

lemma run_all_inv:
  "run_all H ops w = Some w' \<Longrightarrow> ledger_inv w \<Longrightarrow> ledger_inv w'"
proof (induction ops arbitrary: w)
  case Nil
  then show ?case by simp
next
  case (Cons a ops)
  obtain r w1 where s: "run_op H a w = (r, w1)"
    by (cases "run_op H a w")
  with Cons.prems(1) obtain u where r: "r = Inr u" and rest: "run_all H ops w1 = Some w'"
    by (cases r) auto
  from run_op_inv [OF s [unfolded r] Cons.prems(2)] Cons.IH [OF rest] show ?case
    by simp
qed

section \<open>Where the errors about the installed state come from\<close>


















section \<open>The text of a manifest determines the manifest\<close>

lemma json_of_RuntimeType_inj: "json_of_RuntimeType a = json_of_RuntimeType b \<Longrightarrow> a = b"
  by (cases a; cases b) simp_all

lemma json_of_CapabilityType_inj: "json_of_CapabilityType a = json_of_CapabilityType b \<Longrightarrow> a = b"
  by (cases a; cases b) simp_all

lemma map_JStr_inj: "map JStr xs = map JStr ys \<Longrightarrow> xs = ys"
  by (simp add: inj_on_def inj_map_eq_map [unfolded inj_on_def])

lemma env_pairs_inj:
  "map (\<lambda>(k, v). (k, JStr v)) xs = map (\<lambda>(k, v). (k, JStr v)) ys \<Longrightarrow> xs = ys"
proof (induction xs arbitrary: ys)
  case Nil
  then show ?case by simp
next
  case (Cons a xs)
  then show ?case by (cases ys) (auto split: prod.splits)
qed

lemma opt_JStr_inj: "map_option JStr x = map_option JStr y \<Longrightarrow> x = y"
  by (cases x; cases y) simp_all

lemma Author_fields:
  "json_of_Author a = JObj kvs \<Longrightarrow>
   map_of kvs ''name'' = Some (JStr (author_name a)) \<and>
   map_of kvs ''email'' = map_option JStr (email a) \<and>
   map_of kvs ''url'' = map_option JStr (url a)"
  by (auto simp: json_of_Author_def opt_field_def split: option.splits)

lemma json_of_Author_inj:
  assumes "json_of_Author a = json_of_Author b"
  shows "a = b"
proof -
  obtain kvs where k: "json_of_Author a = JObj kvs"
    by (simp add: json_of_Author_def)
  from Author_fields [OF k] Author_fields [OF k [unfolded assms]]
  have "author_name a = author_name b" "email a = email b" "url a = url b"
    by (auto dest: opt_JStr_inj)
  then show ?thesis by simp
qed

lemma Runtime_fields:
  "json_of_Runtime r = JObj kvs \<Longrightarrow>
   map_of kvs ''type'' = Some (json_of_RuntimeType (runtime_type r)) \<and>
   map_of kvs ''entry'' = Some (JStr (entry r)) \<and>
   map_of kvs ''env'' = map_option (\<lambda>xs. JArr (map JStr xs)) (env r) \<and>
   map_of kvs ''envOptional''
     = map_option (\<lambda>kvs. JObj (map (\<lambda>(k, v). (k, JStr v)) kvs)) (envOptional r)"
  by (auto simp: json_of_Runtime_def opt_field_def split: option.splits)

lemma opt_env_inj:
  "map_option (\<lambda>xs. JArr (map JStr xs)) x = map_option (\<lambda>xs. JArr (map JStr xs)) y \<Longrightarrow> x = y"
  by (cases x; cases y) (auto dest: map_JStr_inj)

lemma opt_envOptional_inj:
  "map_option (\<lambda>kvs. JObj (map (\<lambda>(k, v). (k, JStr v)) kvs)) x
     = map_option (\<lambda>kvs. JObj (map (\<lambda>(k, v). (k, JStr v)) kvs)) y \<Longrightarrow> x = y"
  by (cases x; cases y) (auto dest: env_pairs_inj)

lemma json_of_Runtime_inj:
  assumes "json_of_Runtime a = json_of_Runtime b"
  shows "a = b"
proof -
  obtain kvs where k: "json_of_Runtime a = JObj kvs"
    by (simp add: json_of_Runtime_def)
  from Runtime_fields [OF k] Runtime_fields [OF k [unfolded assms]]
  have "runtime_type a = runtime_type b" "entry a = entry b" "env a = env b"
    "envOptional a = envOptional b"
    by (auto dest: opt_env_inj opt_envOptional_inj json_of_RuntimeType_inj)
  then show ?thesis by simp
qed

lemma Installation_fields:
  "json_of_Installation i = JObj kvs \<Longrightarrow>
   map_of kvs ''npmPackage'' = map_option JStr (npmPackage i) \<and>
   map_of kvs ''pypiPackage'' = map_option JStr (pypiPackage i) \<and>
   map_of kvs ''dockerImage'' = map_option JStr (dockerImage i) \<and>
   map_of kvs ''githubRepo'' = map_option JStr (githubRepo i) \<and>
   map_of kvs ''command'' = map_option JStr (command i)"
  by (auto simp: json_of_Installation_def opt_field_def split: option.splits)

lemma json_of_Installation_inj:
  assumes "json_of_Installation a = json_of_Installation b"
  shows "a = b"
proof -
  obtain kvs where k: "json_of_Installation a = JObj kvs"
    by (simp add: json_of_Installation_def)
  from Installation_fields [OF k] Installation_fields [OF k [unfolded assms]]
  have "npmPackage a = npmPackage b" "pypiPackage a = pypiPackage b"
    "dockerImage a = dockerImage b" "githubRepo a = githubRepo b" "command a = command b"
    by (auto dest: opt_JStr_inj)
  then show ?thesis by simp
qed

lemma Capability_fields:
  "json_of_MCPCapability c = JObj kvs \<Longrightarrow>
   map_of kvs ''type'' = Some (json_of_CapabilityType (cap_type c)) \<and>
   map_of kvs ''name'' = Some (JStr (cap_name c)) \<and>
   map_of kvs ''description'' = Some (JStr (cap_description c)) \<and>
   map_of kvs ''inputSchema'' = inputSchema c \<and>
   map_of kvs ''outputSchema'' = outputSchema c"
  by (auto simp: json_of_MCPCapability_def opt_field_def split: option.splits)

lemma json_of_MCPCapability_inj:
  assumes "json_of_MCPCapability a = json_of_MCPCapability b"
  shows "a = b"
proof -
  obtain kvs where k: "json_of_MCPCapability a = JObj kvs"
    by (simp add: json_of_MCPCapability_def)
  from Capability_fields [OF k] Capability_fields [OF k [unfolded assms]]
  have "cap_type a = cap_type b" "cap_name a = cap_name b"
    "cap_description a = cap_description b" "inputSchema a = inputSchema b"
    "outputSchema a = outputSchema b"
    by (auto dest: json_of_CapabilityType_inj)
  then show ?thesis by simp
qed

lemma map_Capability_inj:
  "map json_of_MCPCapability xs = map json_of_MCPCapability ys \<Longrightarrow> xs = ys"
proof (induction xs arbitrary: ys)
  case Nil
  then show ?case by simp
next
  case (Cons a xs)
  then show ?case by (cases ys) (auto dest: json_of_MCPCapability_inj)
qed

lemma manifest_fields:
  "json_of_manifest m = JObj kvs \<Longrightarrow>
   map_of kvs ''id'' = Some (JStr (manifest_id m)) \<and>
   map_of kvs ''name'' = Some (JStr (manifest_name m)) \<and>
   map_of kvs ''description'' = Some (JStr (description m)) \<and>
   map_of kvs ''version'' = Some (JStr (manifest_version m)) \<and>
   map_of kvs ''author'' = Some (json_of_Author (author m)) \<and>
   map_of kvs ''repository'' = map_option JStr (repository m) \<and>
   map_of kvs ''homepage'' = map_option JStr (homepage m) \<and>
   map_of kvs ''license'' = Some (JStr (license m)) \<and>
   map_of kvs ''keywords'' = Some (JArr (map JStr (manifest_keywords m))) \<and>
   map_of kvs ''mcpVersion'' = Some (JStr (mcpVersion m)) \<and>
   map_of kvs ''runtime'' = Some (json_of_Runtime (runtime m)) \<and>
   map_of kvs ''installation'' = Some (json_of_Installation (installation m)) \<and>
   map_of kvs ''capabilities'' = Some (JArr (map json_of_MCPCapability (capabilities m))) \<and>
   map_of kvs ''stats'' = stats m"
  by (auto simp: json_of_manifest_def opt_field_def split: option.splits)

lemma json_of_manifest_inj:
  assumes "json_of_manifest a = json_of_manifest b"
  shows "a = b"
proof -
  obtain kvs where k: "json_of_manifest a = JObj kvs"
    by (simp add: json_of_manifest_def)
  from manifest_fields [OF k] manifest_fields [OF k [unfolded assms]]
  have "manifest_id a = manifest_id b" "manifest_name a = manifest_name b"
    "description a = description b" "manifest_version a = manifest_version b"
    "author a = author b" "repository a = repository b" "homepage a = homepage b"
    "license a = license b" "manifest_keywords a = manifest_keywords b"
    "mcpVersion a = mcpVersion b" "runtime a = runtime b" "installation a = installation b"
    "capabilities a = capabilities b" "stats a = stats b"
    by (auto dest: opt_JStr_inj json_of_Author_inj json_of_Runtime_inj json_of_Installation_inj
        map_Capability_inj map_JStr_inj)
  then show ?thesis by simp
qed

section \<open>The claims\<close>

text \<open>
  C2. When the target directory \<^verbatim>\<open>installDir/id\<close> already exists, \<^verbatim>\<open>install\<close> of a
  manifest with that id fails with AlreadyInstalled and leaves the whole state as it
  was: the directory, its content and the ledger document.
\<close>

theorem install_existing_fails:
  assumes "safe_segment (manifest_id m)" and "existsSync (tree w) [manifest_id m]"
  shows "install H m w = (Inl (AlreadyInstalled (manifest_id m)), w)"
  using assms by (simp add: install_def)

theorem install_existing_fails_witness:
  "safe_segment ''delta'' \<and> existsSync (tree (with_dir ''delta'' fresh)) [''delta''] \<and>
   install demo_host (demo_manifest ''delta'' ''1.0.0'' Node (npm_hint ''delta-package''))
     (with_dir ''delta'' fresh)
   = (Inl (AlreadyInstalled ''delta''), with_dir ''delta'' fresh)"
proof -
  have a: "safe_segment (manifest_id (demo_manifest ''delta'' ''1.0.0'' Node (npm_hint ''delta-package'')))"
    by (simp add: safe_segment_def demo_manifest_def)
  have b: "existsSync (tree (with_dir ''delta'' fresh))
             [manifest_id (demo_manifest ''delta'' ''1.0.0'' Node (npm_hint ''delta-package''))]"
    by (simp add: with_dir_def fresh_def demo_manifest_def)
  show ?thesis
    using install_existing_fails [OF a b, of demo_host] a b by (simp add: demo_manifest_def)
qed

text \<open>
  C5. \<^verbatim>\<open>listInstalled\<close> never fails (it is a total function into values, every
  exception below it being caught): with no ledger file it returns the empty array, and
  with a ledger file whose text does not parse it returns the empty array too, as it
  does when the read itself fails because the name is a directory.
\<close>

theorem listInstalled_never_fails:
  "(tree w INSTALLED_DB = None \<longrightarrow> listInstalled w = JArr []) \<and>
   (tree w INSTALLED_DB = Some (File (Raw s)) \<longrightarrow> listInstalled w = JArr []) \<and>
   (tree w INSTALLED_DB = Some (Dir d) \<longrightarrow> listInstalled w = JArr [])"
  by (simp add: listInstalled_cases)

theorem listInstalled_never_fails_witness:
  "tree fresh INSTALLED_DB = None \<and> listInstalled fresh = JArr [] \<and>
   tree (with_file INSTALLED_DB (Raw ''{not json'') fresh) INSTALLED_DB
     = Some (File (Raw ''{not json'')) \<and>
   listInstalled (with_file INSTALLED_DB (Raw ''{not json'') fresh) = JArr [] \<and>
   tree (with_dir INSTALLED_DB fresh) INSTALLED_DB = Some (Dir Map.empty) \<and>
   listInstalled (with_dir INSTALLED_DB fresh) = JArr []"
proof -
  have a: "tree fresh INSTALLED_DB = None"
    by (simp add: fresh_def)
  have b: "tree (with_file INSTALLED_DB (Raw ''{not json'') fresh) INSTALLED_DB
             = Some (File (Raw ''{not json''))"
    by (simp add: with_file_def)
  have c: "tree (with_dir INSTALLED_DB fresh) INSTALLED_DB = Some (Dir Map.empty)"
    by (simp add: with_dir_def)
  show ?thesis
    using listInstalled_never_fails [of fresh]
      listInstalled_never_fails [of "with_file INSTALLED_DB (Raw ''{not json'') fresh" "''{not json''"]
      listInstalled_never_fails [of "with_dir INSTALLED_DB fresh" _ Map.empty]
      a b c
    by simp
qed

text \<open>
  C6, as the code has it. A manifest of runtime type node with neither a registry
  package name nor a source-repository URL (absent, or the empty string, which the code
  treats alike) never installs, and no child process is started: \<^verbatim>\<open>install\<close> fails
  with AlreadyInstalled when the target directory exists, and with
  NoInstallationMethod otherwise.
\<close>

theorem install_node_no_hint:
  assumes "safe_segment (manifest_id m)"
    and "runtime_type (runtime m) = Node"
    and "hint (npmPackage (installation m)) = None"
    and "hint (githubRepo (installation m)) = None"
  shows "fst (install H m w) =
           Inl (if existsSync (tree w) [manifest_id m] then AlreadyInstalled (manifest_id m)
                else NoInstallationMethod)
         \<and> procs (snd (install H m w)) = procs w"
  using assms by (simp add: install_def installNode_def)

theorem install_node_no_hint_witness:
  "safe_segment ''alpha'' \<and>
   runtime_type (runtime (demo_manifest ''alpha'' ''1.0.0'' Node no_hints)) = Node \<and>
   hint (npmPackage (installation (demo_manifest ''alpha'' ''1.0.0'' Node no_hints))) = None \<and>
   hint (githubRepo (installation (demo_manifest ''alpha'' ''1.0.0'' Node no_hints))) = None \<and>
   \<not> existsSync (tree fresh) [''alpha''] \<and>
   fst (install demo_host (demo_manifest ''alpha'' ''1.0.0'' Node no_hints) fresh)
     = Inl NoInstallationMethod \<and>
   procs (snd (install demo_host (demo_manifest ''alpha'' ''1.0.0'' Node no_hints) fresh)) = []"
proof -
  let ?m = "demo_manifest ''alpha'' ''1.0.0'' Node no_hints"
  have a: "safe_segment (manifest_id ?m)"
    by (simp add: safe_segment_def demo_manifest_def)
  have b: "runtime_type (runtime ?m) = Node"
    by (simp add: demo_manifest_def)
  have c: "hint (npmPackage (installation ?m)) = None"
    by (simp add: demo_manifest_def no_hints_def)
  have d: "hint (githubRepo (installation ?m)) = None"
    by (simp add: demo_manifest_def no_hints_def)
  have e: "\<not> existsSync (tree fresh) [manifest_id ?m]"
    by (simp add: fresh_def)
  have f: "manifest_id ?m = ''alpha''" and g: "procs fresh = []"
    by (simp_all add: demo_manifest_def fresh_def)
  show ?thesis
    using install_node_no_hint [OF a b c d, of demo_host fresh] a b c d e f g by simp
qed

text \<open>
  C6 as stated fails where the target directory exists already: there the same manifest
  fails with AlreadyInstalled, not with NoInstallationMethod. The failing install
  itself leaves the directory behind, so this is what a second attempt meets.
\<close>

theorem install_node_no_hint_retry:
  "runtime_type (runtime (demo_manifest ''alpha'' ''1.0.0'' Node no_hints)) = Node \<and>
   hint (npmPackage (installation (demo_manifest ''alpha'' ''1.0.0'' Node no_hints))) = None \<and>
   hint (githubRepo (installation (demo_manifest ''alpha'' ''1.0.0'' Node no_hints))) = None \<and>
   fst (install demo_host (demo_manifest ''alpha'' ''1.0.0'' Node no_hints) fresh)
     = Inl NoInstallationMethod \<and>
   existsSync
     (tree (snd (install demo_host (demo_manifest ''alpha'' ''1.0.0'' Node no_hints) fresh)))
     [''alpha''] \<and>
   fst (install demo_host (demo_manifest ''alpha'' ''1.0.0'' Node no_hints)
          (snd (install demo_host (demo_manifest ''alpha'' ''1.0.0'' Node no_hints) fresh)))
     = Inl (AlreadyInstalled ''alpha'') \<and>
   fst (install demo_host (demo_manifest ''alpha'' ''1.0.0'' Node no_hints)
          (snd (install demo_host (demo_manifest ''alpha'' ''1.0.0'' Node no_hints) fresh)))
     \<noteq> Inl NoInstallationMethod \<and>
   fst (install demo_host (demo_manifest ''alpha'' ''1.0.0'' Node no_hints)
          (with_dir ''alpha'' fresh))
     = Inl (AlreadyInstalled ''alpha'')"
  by code_simp

text \<open>
  C10. \<^verbatim>\<open>listInstalled\<close> does not validate the ledger document: whenever the text of
  the file parses, the parsed value is returned as it is, array of records or not.
\<close>

theorem listInstalled_unvalidated:
  "tree w INSTALLED_DB = Some (File (Encoded v)) \<Longrightarrow> listInstalled w = v"
  by (simp add: listInstalled_cases)

theorem listInstalled_unvalidated_witness:
  "tree (with_file INSTALLED_DB (Encoded (JObj [(''id'', JNum 7)])) fresh) INSTALLED_DB
     = Some (File (Encoded (JObj [(''id'', JNum 7)]))) \<and>
   listInstalled (with_file INSTALLED_DB (Encoded (JObj [(''id'', JNum 7)])) fresh)
     = JObj [(''id'', JNum 7)] \<and>
   listInstalled (with_file INSTALLED_DB (Encoded (JNum 42)) fresh) = JNum 42 \<and>
   JObj [(''id'', JNum 7)] \<noteq> JArr [] \<and> JNum 42 \<noteq> JArr []"
proof -
  have a: "tree (with_file INSTALLED_DB c fresh) INSTALLED_DB = Some (File c)" for c
    by (simp add: with_file_def)
  show ?thesis
    using listInstalled_unvalidated [OF a [of "Encoded (JObj [(''id'', JNum 7)])"]]
      listInstalled_unvalidated [OF a [of "Encoded (JNum 42)"]] a
    by simp
qed

text \<open>
  C1. When \<^verbatim>\<open>install(m)\<close> succeeds (which it only does for a manifest whose
  strategy could be carried out), started in a state whose ledger has at most one
  record per id: the target directory \<^verbatim>\<open>installDir/m.id\<close> exists, the file
  \<^verbatim>\<open>manifest.json\<close> in it holds the text written from \<open>m\<close> (which is the text
  of no other manifest, by \<open>json_of_manifest_inj\<close>), and the ledger has
  exactly one record with the id of \<open>m\<close>, namely the returned one, whose version is
  that of \<open>m\<close> and whose path is \<^verbatim>\<open>installDir/m.id\<close>.
\<close>

theorem install_creates_both:
  assumes "safe_segment (manifest_id m)" and "ledger_inv w" and "install H m w = (Inr r, w')"
  shows "existsSync (tree w') [manifest_id m] \<and>
         readFileSync (tree w') [manifest_id m, ''manifest.json'']
           = Inr (JSON_stringify (json_of_manifest m)) \<and>
         records_of (manifest_id m) w' = [json_of_installed r] \<and>
         server_id r = manifest_id m \<and> server_version r = manifest_version m \<and>
         path r = join (installDir H) (manifest_id m)"
proof -
  from install_ok [OF assms(3)] obtain d xs ex where
    ne: "manifest_id m \<noteq> INSTALLED_DB" and r: "r = new_record H m w" and
    t: "tree w' = (tree w)
       (manifest_id m \<mapsto> Dir (d(''manifest.json'' \<mapsto> File (Encoded (json_of_manifest m)))),
        INSTALLED_DB \<mapsto> File (Encoded (JArr
          (case ex of Some i \<Rightarrow> xs[i := json_of_installed r]
           | None \<Rightarrow> xs @ [json_of_installed r]))))"
    by blast
  from ne have "existsSync (tree w') [manifest_id m]"
    by (simp add: t)
  moreover from ne have "readFileSync (tree w') [manifest_id m, ''manifest.json'']
           = Inr (JSON_stringify (json_of_manifest m))"
    by (simp add: t readFileSync_def JSON_stringify_def)
  moreover note install_records(1) [OF assms(3) assms(2)]
  ultimately show ?thesis
    by (simp add: r new_record_def)
qed

theorem install_creates_both_witness:
  "safe_segment ''alpha'' \<and> ledger_inv fresh \<and>
   fst (install demo_host (demo_manifest ''alpha'' ''1.0.0'' Node (npm_hint ''alpha-package'')) fresh)
     = Inr (new_record demo_host (demo_manifest ''alpha'' ''1.0.0'' Node (npm_hint ''alpha-package'')) fresh) \<and>
   existsSync (tree (snd (install demo_host
       (demo_manifest ''alpha'' ''1.0.0'' Node (npm_hint ''alpha-package'')) fresh))) [''alpha''] \<and>
   readFileSync (tree (snd (install demo_host
       (demo_manifest ''alpha'' ''1.0.0'' Node (npm_hint ''alpha-package'')) fresh)))
       [''alpha'', ''manifest.json'']
     = Inr (JSON_stringify (json_of_manifest
         (demo_manifest ''alpha'' ''1.0.0'' Node (npm_hint ''alpha-package'')))) \<and>
   records_of ''alpha'' (snd (install demo_host
       (demo_manifest ''alpha'' ''1.0.0'' Node (npm_hint ''alpha-package'')) fresh))
     = [JObj [(''id'', JStr ''alpha''), (''version'', JStr ''1.0.0''),
              (''path'', JStr ''/srv/servers/alpha''),
              (''installedAt'', JStr ''t0''), (''updatedAt'', JStr ''t1'')]]"
proof -
  let ?m = "demo_manifest ''alpha'' ''1.0.0'' Node (npm_hint ''alpha-package'')"
  have a: "safe_segment (manifest_id ?m)"
    by code_simp
  have b: "ledger_inv fresh"
    by code_simp
  have c: "fst (install demo_host ?m fresh) = Inr (new_record demo_host ?m fresh)"
    by code_simp
  then have d: "install demo_host ?m fresh
      = (Inr (new_record demo_host ?m fresh), snd (install demo_host ?m fresh))"
    by (simp add: prod_eq_iff)
  have e: "manifest_id ?m = ''alpha''"
    by (simp add: demo_manifest_def)
  have f: "json_of_installed (new_record demo_host ?m fresh)
     = JObj [(''id'', JStr ''alpha''), (''version'', JStr ''1.0.0''),
              (''path'', JStr ''/srv/servers/alpha''),
              (''installedAt'', JStr ''t0''), (''updatedAt'', JStr ''t1'')]"
    by code_simp
  show ?thesis
    using install_creates_both [OF a b d] a b c unfolding e f by simp
qed

text \<open>
  C4. After a successful \<^verbatim>\<open>remove(id)\<close> of an installed id the directory
  \<^verbatim>\<open>installDir/id\<close> does not exist, the ledger has no record with that id, and
  removing it again fails with NotInstalled. (An installed id is never the name of
  the ledger document itself: \<open>install_ok\<close> shows that no successful install has
  that id.)
\<close>

theorem remove_clears_both:
  assumes "safe_segment x" and "x \<noteq> INSTALLED_DB" and "remove x w = (Inr (), w')"
  shows "\<not> existsSync (tree w') [x] \<and> records_of x w' = [] \<and>
         remove x w' = (Inl (NotInstalled x), w')"
proof -
  from remove_records(1,2) [OF assms(3) assms(2)]
  show ?thesis
    by (simp add: remove_def)
qed

theorem remove_clears_both_witness:
  "safe_segment ''alpha'' \<and> ''alpha'' \<noteq> INSTALLED_DB \<and>
   fst (remove ''alpha'' alpha_installed) = Inr () \<and>
   \<not> existsSync (tree (snd (remove ''alpha'' alpha_installed))) [''alpha''] \<and>
   records_of ''alpha'' (snd (remove ''alpha'' alpha_installed)) = [] \<and>
   fst (remove ''alpha'' (snd (remove ''alpha'' alpha_installed))) = Inl (NotInstalled ''alpha'')"
proof -
  have a: "safe_segment ''alpha''"
    by code_simp
  have b: "''alpha'' \<noteq> INSTALLED_DB"
    by code_simp
  have c: "fst (remove ''alpha'' alpha_installed) = Inr ()"
    by code_simp
  then have d: "remove ''alpha'' alpha_installed = (Inr (), snd (remove ''alpha'' alpha_installed))"
    by (simp add: prod_eq_iff)
  show ?thesis
    using remove_clears_both [OF a b d] a b c by simp
qed

lemma install_not_ledger_name:
  "install H m w = (Inr r, w') \<Longrightarrow> manifest_id m \<noteq> INSTALLED_DB"
  using install_ok by blast

text \<open>
  C3. Installing an id and then successfully updating it to another manifest of the
  same id leaves exactly one ledger record with that id, the one of the update, with
  the version of the second manifest. And every sequence of operations that all
  succeed keeps the invariant that the ledger has at most one record per id.
\<close>

theorem update_replaces:
  "(safe_segment (manifest_id m1) \<and> manifest_id m2 = manifest_id m1 \<and>
    install H m1 w = (Inr r1, w1) \<and> update H m2 w1 = (Inr r2, w2)
    \<longrightarrow> records_of (manifest_id m1) w2 = [json_of_installed r2] \<and>
        server_id r2 = manifest_id m1 \<and> server_version r2 = manifest_version m2) \<and>
   (ledger_inv v \<and> (\<forall>a \<in> set ops. safe_segment (op_id a)) \<and> run_all H ops v = Some v'
    \<longrightarrow> ledger_inv v')"
proof (intro conjI impI)
  assume a: "safe_segment (manifest_id m1) \<and> manifest_id m2 = manifest_id m1 \<and>
    install H m1 w = (Inr r1, w1) \<and> update H m2 w1 = (Inr r2, w2)"
  then have u: "update H m2 w1 = (Inr r2, w2)" and e: "manifest_id m2 = manifest_id m1"
    by simp_all
  from update_records(1) [OF u] e
  show "records_of (manifest_id m1) w2 = [json_of_installed r2]"
    by simp
  from update_records(3) [OF u] e
  show "server_id r2 = manifest_id m1" and "server_version r2 = manifest_version m2"
    by (simp_all add: new_record_def)
next
  assume "ledger_inv v \<and> (\<forall>a \<in> set ops. safe_segment (op_id a)) \<and> run_all H ops v = Some v'"
  then show "ledger_inv v'"
    using run_all_inv by blast
qed

theorem update_replaces_witness:
  "safe_segment ''beta'' \<and> manifest_id beta_v2 = manifest_id beta_v1 \<and>
   manifest_version beta_v1 = ''1.0.0'' \<and> manifest_version beta_v2 = ''1.1.0'' \<and>
   fst (install demo_host beta_v1 fresh) = Inr (beta_record ''1.0.0'' ''t0'' ''t1'') \<and>
   fst (update demo_host beta_v2 beta_installed) = Inr (beta_record ''1.1.0'' ''t2'' ''t3'') \<and>
   records_of ''beta'' beta_updated = [json_of_installed (beta_record ''1.1.0'' ''t2'' ''t3'')] \<and>
   ledger_inv fresh \<and>
   safe_segment (op_id (Install beta_v1)) \<and> safe_segment (op_id (Update beta_v2)) \<and>
   safe_segment (op_id (Remove ''beta'')) \<and> safe_segment (op_id (Install beta_v2)) \<and>
   run_all demo_host [Install beta_v1, Update beta_v2, Remove ''beta'', Install beta_v2] fresh \<noteq> None \<and>
   ledger_inv (the (run_all demo_host
      [Install beta_v1, Update beta_v2, Remove ''beta'', Install beta_v2] fresh))"
proof -
  let ?ops = "[Install beta_v1, Update beta_v2, Remove ''beta'', Install beta_v2]"
  have id1: "manifest_id beta_v1 = ''beta''" and id2: "manifest_id beta_v2 = ''beta''"
    and v1: "manifest_version beta_v1 = ''1.0.0''" and v2: "manifest_version beta_v2 = ''1.1.0''"
    by (simp_all add: beta_v1_def beta_v2_def demo_manifest_def)
  have a: "safe_segment ''beta''"
    by code_simp
  have b: "fst (install demo_host beta_v1 fresh) = Inr (beta_record ''1.0.0'' ''t0'' ''t1'')"
    by code_simp
  then have b': "install demo_host beta_v1 fresh = (Inr (beta_record ''1.0.0'' ''t0'' ''t1''), beta_installed)"
    by (simp add: prod_eq_iff beta_installed_def)
  have c: "fst (update demo_host beta_v2 beta_installed) = Inr (beta_record ''1.1.0'' ''t2'' ''t3'')"
    by code_simp
  then have c': "update demo_host beta_v2 beta_installed
      = (Inr (beta_record ''1.1.0'' ''t2'' ''t3''), beta_updated)"
    by (simp add: prod_eq_iff beta_updated_def)
  have d: "ledger_inv fresh"
    by code_simp
  have e: "\<forall>a \<in> set ?ops. safe_segment (op_id a)"
    using a by (simp add: id1 id2)
  have f: "run_all demo_host ?ops fresh \<noteq> None"
    by code_simp
  then have f': "run_all demo_host ?ops fresh = Some (the (run_all demo_host ?ops fresh))"
    by simp
  show ?thesis
    using update_replaces [of beta_v1 beta_v2 demo_host fresh "beta_record ''1.0.0'' ''t0'' ''t1''"
        beta_installed "beta_record ''1.1.0'' ''t2'' ''t3''" beta_updated fresh ?ops
        "the (run_all demo_host ?ops fresh)"]
      a b b' c c' d e f f' id1 id2 v1 v2
    by simp
qed

text \<open>
  C7, as the code has it. A manifest of runtime type binary never installs, and no
  child process is started: \<^verbatim>\<open>install\<close> fails with AlreadyInstalled when the target
  directory exists; otherwise with the "not yet implemented" error when a
  source-repository URL is present, and with NoInstallationMethod when there is none.
\<close>

theorem install_binary_fails:
  assumes "safe_segment (manifest_id m)" and "runtime_type (runtime m) = Binary"
  shows "fst (install H m w) =
           Inl (if existsSync (tree w) [manifest_id m] then AlreadyInstalled (manifest_id m)
                else if hint (githubRepo (installation m)) \<noteq> None then BinaryNotImplemented
                else NoInstallationMethod)
         \<and> procs (snd (install H m w)) = procs w"
  using assms by (auto simp add: install_def installBinary_def split: option.splits)

theorem install_binary_fails_witness:
  "safe_segment ''tool'' \<and> runtime_type (runtime tool_manifest_repo) = Binary \<and>
   \<not> existsSync (tree fresh) [''tool''] \<and>
   hint (githubRepo (installation tool_manifest_repo)) \<noteq> None \<and>
   fst (install demo_host tool_manifest_repo fresh) = Inl BinaryNotImplemented \<and>
   procs (snd (install demo_host tool_manifest_repo fresh)) = []"
proof -
  have i: "manifest_id tool_manifest_repo = ''tool''"
    by (simp add: tool_manifest_repo_def demo_manifest_def)
  have a: "safe_segment (manifest_id tool_manifest_repo)"
    by code_simp
  have b: "runtime_type (runtime tool_manifest_repo) = Binary"
    by code_simp
  have c: "\<not> existsSync (tree fresh) [''tool'']"
    by code_simp
  have d: "hint (githubRepo (installation tool_manifest_repo)) \<noteq> None"
    by code_simp
  have e: "procs fresh = []"
    by (simp add: fresh_def)
  show ?thesis
    using install_binary_fails [OF a b, of demo_host fresh] a b c d e unfolding i by simp
qed

text \<open>
  C7 as stated fails: a binary manifest without a source-repository URL, installed
  where nothing is installed yet, fails with NoInstallationMethod, not with the
  "not yet implemented" error.
\<close>

theorem install_binary_no_repo:
  "runtime_type (runtime tool_manifest) = Binary \<and>
   fst (install demo_host tool_manifest fresh) = Inl NoInstallationMethod \<and>
   fst (install demo_host tool_manifest fresh) \<noteq> Inl BinaryNotImplemented"
  by code_simp

text \<open>
  C8, as the code has it. Both timestamps of the record are readings of the clock made
  by the \<^verbatim>\<open>install\<close> that writes it: a successful \<^verbatim>\<open>install\<close> started after \<open>k\<close>
  readings sets \<^verbatim>\<open>installedAt\<close> to reading \<open>k\<close> and \<^verbatim>\<open>updatedAt\<close> to reading
  \<open>k + 1\<close>, and so does a successful \<^verbatim>\<open>update\<close>, whose record is the only one the
  ledger then has for the id.
\<close>

theorem timestamps_fresh:
  "(safe_segment (manifest_id m) \<and> install H m w = (Inr r, w')
    \<longrightarrow> installedAt r = clock H (ticks w) \<and> updatedAt r = clock H (Suc (ticks w))) \<and>
   (safe_segment (manifest_id m) \<and> update H m v = (Inr s, v')
    \<longrightarrow> installedAt s = clock H (ticks v) \<and> updatedAt s = clock H (Suc (ticks v)) \<and>
        records_of (manifest_id m) v' = [json_of_installed s])"
proof (intro conjI impI)
  assume "safe_segment (manifest_id m) \<and> install H m w = (Inr r, w')"
  then have "r = new_record H m w"
    using install_ok [of H m w r w'] by blast
  then show "installedAt r = clock H (ticks w)" and "updatedAt r = clock H (Suc (ticks w))"
    by (simp_all add: new_record_def)
next
  assume "safe_segment (manifest_id m) \<and> update H m v = (Inr s, v')"
  then have u: "update H m v = (Inr s, v')"
    by simp
  from update_records(3) [OF u]
  show "installedAt s = clock H (ticks v)" and "updatedAt s = clock H (Suc (ticks v))"
    by (simp_all add: new_record_def)
  from update_records(1) [OF u]
  show "records_of (manifest_id m) v' = [json_of_installed s]" .
qed

theorem timestamps_fresh_witness:
  "safe_segment ''beta'' \<and>
   fst (install demo_host beta_v1 fresh) = Inr (beta_record ''1.0.0'' ''t0'' ''t1'') \<and>
   clock demo_host (ticks fresh) = ''t0'' \<and> clock demo_host (Suc (ticks fresh)) = ''t1'' \<and>
   fst (update demo_host beta_v2 beta_installed) = Inr (beta_record ''1.1.0'' ''t2'' ''t3'') \<and>
   clock demo_host (ticks beta_installed) = ''t2'' \<and>
   clock demo_host (Suc (ticks beta_installed)) = ''t3'' \<and>
   records_of ''beta'' beta_updated = [json_of_installed (beta_record ''1.1.0'' ''t2'' ''t3'')]"
proof -
  have id1: "manifest_id beta_v1 = ''beta''" and id2: "manifest_id beta_v2 = ''beta''"
    by (simp_all add: beta_v1_def beta_v2_def demo_manifest_def)
  have a: "safe_segment ''beta''"
    by code_simp
  have b: "fst (install demo_host beta_v1 fresh) = Inr (beta_record ''1.0.0'' ''t0'' ''t1'')"
    by code_simp
  then have b': "install demo_host beta_v1 fresh
      = (Inr (beta_record ''1.0.0'' ''t0'' ''t1''), beta_installed)"
    by (simp add: prod_eq_iff beta_installed_def)
  have c: "fst (update demo_host beta_v2 beta_installed) = Inr (beta_record ''1.1.0'' ''t2'' ''t3'')"
    by code_simp
  then have c': "update demo_host beta_v2 beta_installed
      = (Inr (beta_record ''1.1.0'' ''t2'' ''t3''), beta_updated)"
    by (simp add: prod_eq_iff beta_updated_def)
  have r: "installedAt (beta_record v t1 t2) = t1" "updatedAt (beta_record v t1 t2) = t2" for v t1 t2
    by (simp_all add: beta_record_def)
  show ?thesis
    using timestamps_fresh [of beta_v1 demo_host fresh "beta_record ''1.0.0'' ''t0'' ''t1''"
        beta_installed]
      timestamps_fresh [of beta_v2 demo_host _ _ _ beta_installed
        "beta_record ''1.1.0'' ''t2'' ''t3''" beta_updated]
      a b b' c c' id1 id2 r
    by simp
qed

text \<open>
  C8 as stated fails: after installing and then updating, \<^verbatim>\<open>installedAt\<close> of the
  record is the time of the update, not that of the first installation.
\<close>

theorem installedAt_not_kept:
  "fst (install demo_host beta_v1 fresh) = Inr (beta_record ''1.0.0'' ''t0'' ''t1'') \<and>
   fst (update demo_host beta_v2 beta_installed) = Inr (beta_record ''1.1.0'' ''t2'' ''t3'') \<and>
   records_of ''beta'' beta_installed = [json_of_installed (beta_record ''1.0.0'' ''t0'' ''t1'')] \<and>
   records_of ''beta'' beta_updated = [json_of_installed (beta_record ''1.1.0'' ''t2'' ''t3'')] \<and>
   installedAt (beta_record ''1.1.0'' ''t2'' ''t3'') \<noteq> installedAt (beta_record ''1.0.0'' ''t0'' ''t1'')"
  by code_simp



end
